theory Spec2Isabelle
  imports Main "HOL-Library.Word"
begin

section \<open>JavaScript values met by the component\<close>

text \<open>
  The component of \<^verbatim>\<open>src/App.js\<close> reads two fields of a parsed JSON body, tests
  them for truthiness and splices one of them into a template literal. The values
  below are the ones \<^verbatim>\<open>JSON.parse\<close> can produce, plus \<^verbatim>\<open>undefined\<close> for an absent
  property. The component observes a number only through ToBoolean and ToString,
  so a number is given by its ToString rendering (\<^verbatim>\<open>0\<close>, \<^verbatim>\<open>-7\<close>, \<^verbatim>\<open>1.5\<close>, \<^verbatim>\<open>1e+21\<close>), which
  is \<^verbatim>\<open>0\<close> for both zeros.
\<close>

datatype jsval =
    JUndefined
  | JNull
  | JBool bool
  | JNum string
  | JStr string
  | JArr "jsval list"
  | JObj "(string \<times> jsval) list"

datatype js_error = TypeError | AxiosError

text \<open>
  ToBoolean: \<^verbatim>\<open>undefined\<close>, \<^verbatim>\<open>null\<close>, \<^verbatim>\<open>false\<close>, the zeros, \<^verbatim>\<open>NaN\<close> and \<^verbatim>\<open>""\<close> are falsy.
\<close>

fun js_truthy :: "jsval \<Rightarrow> bool" where
  "js_truthy JUndefined = False"
| "js_truthy JNull = False"
| "js_truthy (JBool b) = b"
| "js_truthy (JNum n) = (n \<noteq> ''0'' \<and> n \<noteq> ''NaN'')"
| "js_truthy (JStr s) = (s \<noteq> [])"
| "js_truthy (JArr xs) = True"
| "js_truthy (JObj kvs) = True"

fun join_comma :: "string list \<Rightarrow> string" where
  "join_comma [] = []"
| "join_comma [s] = s"
| "join_comma (s # t # ss) = s @ '','' @ join_comma (t # ss)"

text \<open>The renderings of a list of values in order, or the first exception thrown.\<close>

fun collect :: "(js_error + string) list \<Rightarrow> js_error + string list" where
  "collect [] = Inr []"
| "collect (Inl e # rs) = Inl e"
| "collect (Inr s # rs) = (case collect rs of Inl e \<Rightarrow> Inl e | Inr ss \<Rightarrow> Inr (s # ss))"

text \<open>
  ToString, as the template literal of line 33 applies it. A parsed object has no
  callable property of its own: with an own \<^verbatim>\<open>toString\<close> key neither \<^verbatim>\<open>toString\<close> nor
  \<^verbatim>\<open>valueOf\<close> yields a primitive and the conversion throws a TypeError; without one the
  inherited method gives \<^verbatim>\<open>[object Object]\<close>. An array joins the renderings of its
  elements with commas, \<^verbatim>\<open>null\<close> and \<^verbatim>\<open>undefined\<close> elements giving the empty string, and
  throws when an element does.
\<close>

fun js_to_string :: "jsval \<Rightarrow> js_error + string" where
  "js_to_string JUndefined = Inr ''undefined''"
| "js_to_string JNull = Inr ''null''"
| "js_to_string (JBool b) = Inr (if b then ''true'' else ''false'')"
| "js_to_string (JNum n) = Inr n"
| "js_to_string (JStr s) = Inr s"
| "js_to_string (JArr xs) =
     (case collect (map (\<lambda>x. if x = JUndefined \<or> x = JNull then Inr [] else js_to_string x) xs)
      of Inl e \<Rightarrow> Inl e | Inr ss \<Rightarrow> Inr (join_comma ss))"
| "js_to_string (JObj kvs) =
     (if ''toString'' \<in> set (map fst kvs) then Inl TypeError else Inr ''[object Object]'')"

text \<open>
  Property read \<^verbatim>\<open>v.name\<close> for a name that no built-in prototype defines (the
  component reads \<^verbatim>\<open>filename\<close> and \<^verbatim>\<open>used_ocr\<close> only): reading from \<^verbatim>\<open>undefined\<close>
  or \<^verbatim>\<open>null\<close> throws a TypeError, an object gives its own property or \<^verbatim>\<open>undefined\<close>,
  every other value gives \<^verbatim>\<open>undefined\<close>.
\<close>

fun get_field :: "jsval \<Rightarrow> string \<Rightarrow> js_error + jsval" where
  "get_field JUndefined name = Inl TypeError"
| "get_field JNull name = Inl TypeError"
| "get_field (JObj kvs) name =
     (case map_of kvs name of None \<Rightarrow> Inr JUndefined | Some v \<Rightarrow> Inr v)"
| "get_field v name = Inr JUndefined"

section \<open>The state of \<^verbatim>\<open>PiiRedactionApp\<close>\<close>

type_synonym byte = "8 word"

text \<open>A \<^verbatim>\<open>File\<close> of the platform's picker: opaque to the component.\<close>

datatype picked_file = File (file_name: string) (file_bytes: "byte list")

text \<open>What \<^verbatim>\<open>pdf\<close> can hold: the initial \<^verbatim>\<open>null\<close>, or \<^verbatim>\<open>event.target.files[0]\<close>.\<close>

datatype selection = SelNull | SelUndefined | SelFile picked_file

fun selection_truthy :: "selection \<Rightarrow> bool" where
  "selection_truthy SelNull = False"
| "selection_truthy SelUndefined = False"
| "selection_truthy (SelFile f) = True"

text \<open>
  The four \<^verbatim>\<open>useState\<close> cells (lines 6 to 9). \<^verbatim>\<open>redactedPdf\<close> is \<^verbatim>\<open>null\<close> (\<open>None\<close>) or a
  string; \<^verbatim>\<open>usedOcr\<close> holds whatever value the response carried.
\<close>

record ui_state =
  pdf :: selection
  redactedPdf :: "string option"
  usedOcr :: jsval
  isLoading :: bool

definition initial_state :: ui_state where
  "initial_state = \<lparr>pdf = SelNull, redactedPdf = None, usedOcr = JBool False, isLoading = False\<rparr>"

section \<open>Requests, responses and effects\<close>

record request =
  url :: string
  form :: "(string \<times> selection) list"
  headers :: "(string \<times> string) list"

record response =
  status :: int
  data :: jsval

text \<open>How the awaited \<^verbatim>\<open>axios.post\<close> promise settles.\<close>

datatype outcome = Resolved response | Rejected js_error

text \<open>
  What comes back on the wire: nothing (connection refused, timeout) or a reply
  with a status and a body. Lines 26 to 30 pass no \<^verbatim>\<open>validateStatus\<close>, so axios uses
  its default: the promise resolves for a status from 200 to 299 and rejects for
  every other one.
\<close>

datatype reply = NoReply | HttpReply response

definition validateStatus :: "int \<Rightarrow> bool" where
  "validateStatus st = (200 \<le> st \<and> st < 300)"

definition axios_post :: "reply \<Rightarrow> outcome" where
  "axios_post rp =
     (case rp of
        NoReply \<Rightarrow> Rejected AxiosError
      | HttpReply r \<Rightarrow> if validateStatus (status r) then Resolved r else Rejected AxiosError)"

datatype effect = Alert string | HttpPost request

text \<open>Lines 21, 22 and 26 to 30: the form holds \<^verbatim>\<open>pdf\<close> under the name \<^verbatim>\<open>file\<close>.\<close>

definition redact_request :: "selection \<Rightarrow> request" where
  "redact_request p =
     \<lparr>url = ''http://127.0.0.1:8000/redact-pdf/'',
      form = [(''file'', p)],
      headers = [(''Content-Type'', ''multipart/form-data'')]\<rparr>"

definition static_base :: string where
  "static_base = ''http://127.0.0.1:8000/output/''"

section \<open>The handlers\<close>

text \<open>\<^verbatim>\<open>handleUpload\<close> (lines 11 to 13): \<^verbatim>\<open>files[0]\<close> of an empty list is \<^verbatim>\<open>undefined\<close>.\<close>

fun first_file :: "picked_file list \<Rightarrow> selection" where
  "first_file [] = SelUndefined"
| "first_file (f # fs) = SelFile f"

definition handleUpload :: "picked_file list \<Rightarrow> ui_state \<Rightarrow> ui_state" where
  "handleUpload files s = s\<lparr>pdf := first_file files\<rparr>"

text \<open>
  \<^verbatim>\<open>handleRedact\<close> is an async function. Its synchronous part (lines 16 to 30) either
  returns after the alert or suspends at the \<^verbatim>\<open>await\<close> with the request sent.
\<close>

datatype progress = Finished ui_state "effect list" | Suspended ui_state "effect list"

definition handleRedact_dispatch :: "ui_state \<Rightarrow> progress" where
  "handleRedact_dispatch s =
     (if \<not> selection_truthy (pdf s) then Finished s [Alert ''Please upload a PDF first.'']
      else Suspended (s\<lparr>isLoading := True\<rparr>) [HttpPost (redact_request (pdf s))])"

text \<open>
  The \<^verbatim>\<open>try\<close> block after the \<^verbatim>\<open>await\<close> (lines 26 to 37): the state and effects so
  far, and the exception thrown, if any. \<^verbatim>\<open>&&\<close> reads \<^verbatim>\<open>response.data.filename\<close> only
  when the status is 200. The template literal is the argument of \<^verbatim>\<open>setRedactedPdf\<close>:
  when its conversion throws, no setter has run.
\<close>

definition try_body :: "outcome \<Rightarrow> ui_state \<Rightarrow> ui_state \<times> effect list \<times> js_error option" where
  "try_body oc s =
     (case oc of
        Rejected e \<Rightarrow> (s, [], Some e)
      | Resolved r \<Rightarrow>
          if status r = 200 then
            (case get_field (data r) ''filename'' of
               Inl e \<Rightarrow> (s, [], Some e)
             | Inr fn \<Rightarrow>
                 if js_truthy fn then
                   (case js_to_string fn of
                      Inl e \<Rightarrow> (s, [], Some e)
                    | Inr name \<Rightarrow>
                        (let s1 = s\<lparr>redactedPdf := Some (static_base @ name)\<rparr>
                         in case get_field (data r) ''used_ocr'' of
                              Inl e \<Rightarrow> (s1, [], Some e)
                            | Inr ocr \<Rightarrow> (s1\<lparr>usedOcr := ocr\<rparr>, [], None)))
                 else (s, [Alert ''Something went wrong. Please try again.''], None))
          else (s, [Alert ''Something went wrong. Please try again.''], None))"

text \<open>The continuation: \<^verbatim>\<open>try\<close>, then \<^verbatim>\<open>catch\<close> (lines 38, 39), then \<^verbatim>\<open>finally\<close> (40 to 42).\<close>

definition handleRedact_resume :: "outcome \<Rightarrow> ui_state \<Rightarrow> ui_state \<times> effect list" where
  "handleRedact_resume oc s =
     (case try_body oc s of
        (s1, fx, None) \<Rightarrow> (s1\<lparr>isLoading := False\<rparr>, fx)
      | (s1, fx, Some e) \<Rightarrow> (s1\<lparr>isLoading := False\<rparr>, fx @ [Alert ''Failed to process the PDF.'']))"

text \<open>One whole call, with nothing else happening while the request is in flight.\<close>

definition handleRedact :: "outcome \<Rightarrow> ui_state \<Rightarrow> ui_state \<times> effect list" where
  "handleRedact oc s =
     (case handleRedact_dispatch s of
        Finished s1 fx \<Rightarrow> (s1, fx)
      | Suspended s1 fx \<Rightarrow>
          (case handleRedact_resume oc s1 of (s2, fx2) \<Rightarrow> (s2, fx @ fx2)))"

section \<open>Rendering\<close>

text \<open>
  The state-dependent parts of the returned tree (lines 85 to 128). \<^verbatim>\<open>{v && e}\<close>
  renders \<^verbatim>\<open>e\<close> when \<^verbatim>\<open>v\<close> is truthy and the falsy \<^verbatim>\<open>v\<close> itself otherwise: nothing,
  except that a falsy number prints as text.
\<close>

datatype node = NoNode | TextNode string | OcrAdvisory

record result_box =
  href :: string
  ocr_slot :: node

record view =
  redact_disabled :: bool
  redact_label :: string
  result_slot :: "result_box option"

definition render_ocr :: "jsval \<Rightarrow> node" where
  "render_ocr v =
     (if js_truthy v then OcrAdvisory
      else case v of JNum n \<Rightarrow> TextNode n | _ \<Rightarrow> NoNode)"

definition render :: "ui_state \<Rightarrow> view" where
  "render s =
     \<lparr>redact_disabled = isLoading s,
      redact_label = (if isLoading s then ''Processing...'' else ''Redact PDF''),
      result_slot =
        (case redactedPdf s of
           None \<Rightarrow> None
         | Some u \<Rightarrow> if u = [] then None
                     else Some \<lparr>href = u, ocr_slot = render_ocr (usedOcr s)\<rparr>)\<rparr>"

text \<open>Whether the tree shows the OCR advisory of lines 122 to 126.\<close>

definition advisory_shown :: "view \<Rightarrow> bool" where
  "advisory_shown v = (case result_slot v of None \<Rightarrow> False | Some b \<Rightarrow> ocr_slot b = OcrAdvisory)"

section \<open>The component as an event system\<close>

text \<open>
  User and network events in the order they reach the component. A click on the
  disabled button fires no handler; a settlement needs an outstanding request.
\<close>

datatype event = Upload "picked_file list" | ClickRedact | Settle outcome

record system =
  ui :: ui_state
  in_flight :: nat
  effects :: "effect list"

definition initial_system :: system where
  "initial_system = \<lparr>ui = initial_state, in_flight = 0, effects = []\<rparr>"

fun step :: "system \<Rightarrow> event \<Rightarrow> system" where
  "step \<sigma> (Upload files) = \<sigma>\<lparr>ui := handleUpload files (ui \<sigma>)\<rparr>"
| "step \<sigma> ClickRedact =
     (if redact_disabled (render (ui \<sigma>)) then \<sigma>
      else case handleRedact_dispatch (ui \<sigma>) of
             Finished s fx \<Rightarrow> \<sigma>\<lparr>ui := s, effects := effects \<sigma> @ fx\<rparr>
           | Suspended s fx \<Rightarrow>
               \<sigma>\<lparr>ui := s, in_flight := Suc (in_flight \<sigma>), effects := effects \<sigma> @ fx\<rparr>)"
| "step \<sigma> (Settle oc) =
     (if in_flight \<sigma> = 0 then \<sigma>
      else case handleRedact_resume oc (ui \<sigma>) of
             (s, fx) \<Rightarrow> \<sigma>\<lparr>ui := s, in_flight := in_flight \<sigma> - 1, effects := effects \<sigma> @ fx\<rparr>)"

definition run :: "event list \<Rightarrow> system" where
  "run evs = foldl step initial_system evs"

text \<open>
  The loading flag is set exactly while one request is outstanding, and no second
  request is sent meanwhile.
\<close>

definition flag_tracks_request :: "system \<Rightarrow> bool" where
  "flag_tracks_request \<sigma> = (in_flight \<sigma> \<le> 1 \<and> (isLoading (ui \<sigma>) \<longleftrightarrow> in_flight \<sigma> = 1))"

text \<open>No stored download URL is the empty string.\<close>

definition url_nonempty :: "ui_state \<Rightarrow> bool" where
  "url_nonempty s = (redactedPdf s \<noteq> Some [])"

section \<open>Facts about the handlers\<close>

lemma dispatch_unselected:
  "\<not> selection_truthy (pdf s) \<Longrightarrow>
     handleRedact_dispatch s = Finished s [Alert ''Please upload a PDF first.'']"
  by (simp add: handleRedact_dispatch_def)

lemma dispatch_selected:
  "selection_truthy (pdf s) \<Longrightarrow>
     handleRedact_dispatch s =
       Suspended (s\<lparr>isLoading := True\<rparr>) [HttpPost (redact_request (pdf s))]"
  by (simp add: handleRedact_dispatch_def)

lemma try_body_rejected: "try_body (Rejected e) s = (s, [], Some e)"
  by (simp add: try_body_def)

lemma try_body_other_status:
  "status r \<noteq> 200 \<Longrightarrow>
     try_body (Resolved r) s = (s, [Alert ''Something went wrong. Please try again.''], None)"
  by (simp add: try_body_def)

lemma try_body_falsy_filename:
  "status r = 200 \<Longrightarrow> get_field (data r) ''filename'' = Inr v \<Longrightarrow> \<not> js_truthy v \<Longrightarrow>
     try_body (Resolved r) s = (s, [Alert ''Something went wrong. Please try again.''], None)"
  by (simp add: try_body_def)

lemma try_body_success:
  "status r = 200 \<Longrightarrow> get_field (data r) ''filename'' = Inr fn \<Longrightarrow> js_truthy fn \<Longrightarrow>
   js_to_string fn = Inr name \<Longrightarrow> get_field (data r) ''used_ocr'' = Inr v \<Longrightarrow>
     try_body (Resolved r) s =
       (s\<lparr>redactedPdf := Some (static_base @ name), usedOcr := v\<rparr>, [], None)"
  by (simp add: try_body_def)

lemma try_body_unprintable:
  "status r = 200 \<Longrightarrow> get_field (data r) ''filename'' = Inr fn \<Longrightarrow> js_truthy fn \<Longrightarrow>
   js_to_string fn = Inl e \<Longrightarrow> try_body (Resolved r) s = (s, [], Some e)"
  by (simp add: try_body_def)

lemma axios_post_resolves:
  "validateStatus (status r) \<Longrightarrow> axios_post (HttpReply r) = Resolved r"
  by (simp add: axios_post_def)

lemma axios_post_rejects:
  "\<not> validateStatus (status r) \<Longrightarrow> axios_post (HttpReply r) = Rejected AxiosError"
  by (simp add: axios_post_def)

lemma try_body_no_body:
  "status r = 200 \<Longrightarrow> get_field (data r) ''filename'' = Inl e \<Longrightarrow>
     try_body (Resolved r) s = (s, [], Some e)"
  by (simp add: try_body_def)

text \<open>A value that yields one field yields every field: only \<^verbatim>\<open>null\<close> and \<^verbatim>\<open>undefined\<close> throw.\<close>

lemma get_field_total:
  "get_field d name = Inr v \<Longrightarrow> \<exists>w. get_field d name' = Inr w"
  by (cases d) (auto split: option.splits)

lemma handleRedact_selected:
  "selection_truthy (pdf s) \<Longrightarrow>
     handleRedact oc s =
       (fst (handleRedact_resume oc (s\<lparr>isLoading := True\<rparr>)),
        HttpPost (redact_request (pdf s)) # snd (handleRedact_resume oc (s\<lparr>isLoading := True\<rparr>)))"
  by (simp add: handleRedact_def dispatch_selected split: prod.splits)

lemma resume_clears_flag: "isLoading (fst (handleRedact_resume oc s)) = False"
  by (simp add: handleRedact_resume_def split: prod.splits option.splits)

text \<open>The continuation writes \<^verbatim>\<open>pdf\<close> on no path.\<close>

lemma try_body_pdf: "pdf (fst (try_body oc s)) = pdf s"
  by (simp add: try_body_def Let_def split: outcome.splits sum.splits)

lemma resume_pdf: "pdf (fst (handleRedact_resume oc s)) = pdf s"
  using try_body_pdf [of oc s]
  by (cases "try_body oc s") (auto simp: handleRedact_resume_def split: option.splits)

text \<open>Every URL the continuation stores starts with the static base, so it is not empty.\<close>

lemma try_body_url:
  "redactedPdf (fst (try_body oc s)) = redactedPdf s \<or>
   (\<exists>x. redactedPdf (fst (try_body oc s)) = Some (static_base @ x))"
  by (simp add: try_body_def Let_def split: outcome.splits sum.splits)

lemma resume_url:
  "redactedPdf (fst (handleRedact_resume oc s)) = redactedPdf s \<or>
   (\<exists>x. redactedPdf (fst (handleRedact_resume oc s)) = Some (static_base @ x))"
  using try_body_url [of oc s]
  by (cases "try_body oc s") (auto simp: handleRedact_resume_def split: option.splits)

section \<open>Invariants of the event system\<close>

lemma step_flag_tracks_request:
  assumes inv: "flag_tracks_request \<sigma>"
  shows "flag_tracks_request (step \<sigma> ev)"
proof (cases ev)
  case (Upload files)
  with inv show ?thesis
    by (simp add: flag_tracks_request_def handleUpload_def)
next
  case ClickRedact
  show ?thesis
  proof (cases "isLoading (ui \<sigma>)")
    case True
    with inv ClickRedact show ?thesis by (simp add: render_def)
  next
    case False
    with inv have idle: "in_flight \<sigma> = 0"
      by (auto simp: flag_tracks_request_def)
    show ?thesis
    proof (cases "selection_truthy (pdf (ui \<sigma>))")
      case True
      with False idle ClickRedact show ?thesis
        by (simp add: render_def dispatch_selected flag_tracks_request_def)
    next
      case unsel: False
      with False idle ClickRedact show ?thesis
        by (simp add: render_def dispatch_unselected flag_tracks_request_def)
    qed
  qed
next
  case (Settle oc)
  show ?thesis
  proof (cases "in_flight \<sigma> = 0")
    case True
    with inv Settle show ?thesis by simp
  next
    case False
    with inv have one: "in_flight \<sigma> = 1"
      by (auto simp: flag_tracks_request_def)
    obtain s fx where r: "handleRedact_resume oc (ui \<sigma>) = (s, fx)"
      by (cases "handleRedact_resume oc (ui \<sigma>)")
    with resume_clears_flag [of oc "ui \<sigma>"] have "\<not> isLoading s" by simp
    with one r Settle show ?thesis
      by (simp add: flag_tracks_request_def)
  qed
qed

lemma foldl_flag_tracks_request:
  "flag_tracks_request \<sigma> \<Longrightarrow> flag_tracks_request (foldl step \<sigma> evs)"
  by (induction evs arbitrary: \<sigma>) (simp_all add: step_flag_tracks_request)

lemma run_flag_tracks_request: "flag_tracks_request (run evs)"
  unfolding run_def
  by (rule foldl_flag_tracks_request)
     (simp add: flag_tracks_request_def initial_system_def initial_state_def)

lemma step_url_nonempty:
  assumes inv: "url_nonempty (ui \<sigma>)"
  shows "url_nonempty (ui (step \<sigma> ev))"
proof (cases ev)
  case (Upload files)
  with inv show ?thesis by (simp add: url_nonempty_def handleUpload_def)
next
  case ClickRedact
  with inv show ?thesis
    by (simp add: url_nonempty_def handleRedact_dispatch_def)
next
  case (Settle oc)
  obtain s fx where r: "handleRedact_resume oc (ui \<sigma>) = (s, fx)"
    by (cases "handleRedact_resume oc (ui \<sigma>)")
  with resume_url [of oc "ui \<sigma>"] inv have "url_nonempty s"
    by (auto simp: url_nonempty_def static_base_def)
  with inv r Settle show ?thesis by simp
qed

lemma foldl_url_nonempty:
  "url_nonempty (ui \<sigma>) \<Longrightarrow> url_nonempty (ui (foldl step \<sigma> evs))"
  by (induction evs arbitrary: \<sigma>) (simp_all add: step_url_nonempty)

lemma run_url_nonempty: "url_nonempty (ui (run evs))"
  unfolding run_def
  by (rule foldl_url_nonempty) (simp add: url_nonempty_def initial_system_def initial_state_def)

section \<open>Facts about rendering\<close>

lemma render_ocr_advisory: "(render_ocr v = OcrAdvisory) = js_truthy v"
  by (cases v) (simp_all add: render_ocr_def)

lemma advisory_shown_stored:
  "u \<noteq> [] \<Longrightarrow>
     advisory_shown (render (s\<lparr>redactedPdf := Some u, usedOcr := v, isLoading := b\<rparr>)) =
       js_truthy v"
  by (simp add: advisory_shown_def render_def render_ocr_advisory)

section \<open>The claims\<close>

text \<open>
  C1. In every state where no file is selected (\<^verbatim>\<open>pdf\<close> is \<^verbatim>\<open>null\<close> or \<^verbatim>\<open>undefined\<close>),
  \<^verbatim>\<open>handleRedact\<close> shows the notice "Please upload a PDF first." and nothing else: it
  sends no request and returns the state with all four fields as they were.
\<close>

theorem C1_submit_without_file:
  assumes "\<not> selection_truthy (pdf s)"
  shows "handleRedact oc s = (s, [Alert ''Please upload a PDF first.''])
       \<and> (\<forall>rq. HttpPost rq \<notin> set (snd (handleRedact oc s)))"
  using assms by (simp add: handleRedact_def dispatch_unselected)

theorem C1_submit_without_file_witness:
  "\<not> selection_truthy (pdf initial_state)
   \<and> handleRedact (Rejected AxiosError) initial_state =
       (initial_state, [Alert ''Please upload a PDF first.''])
   \<and> (\<forall>rq. HttpPost rq \<notin> set (snd (handleRedact (Rejected AxiosError) initial_state)))"
proof -
  have h: "\<not> selection_truthy (pdf initial_state)"
    by (simp add: initial_state_def)
  from C1_submit_without_file [OF h, of "Rejected AxiosError"] h show ?thesis by simp
qed

text \<open>
  C2. For every response with status 200 whose \<^verbatim>\<open>filename\<close> is a non-empty string,
  the download URL stored is the static base \<^verbatim>\<open>http://127.0.0.1:8000/output/\<close> followed
  by exactly that string: by the continuation in whatever state it resumes, and by a
  whole call started with a file selected.
\<close>

theorem C2_download_url:
  assumes "status r = 200"
    and "get_field (data r) ''filename'' = Inr (JStr f)"
    and "f \<noteq> []"
  shows "redactedPdf (fst (handleRedact_resume (Resolved r) s)) =
           Some (''http://127.0.0.1:8000/output/'' @ f)
       \<and> (selection_truthy (pdf s) \<longrightarrow>
            redactedPdf (fst (handleRedact (Resolved r) s)) =
              Some (''http://127.0.0.1:8000/output/'' @ f))"
proof -
  obtain v where v: "get_field (data r) ''used_ocr'' = Inr v"
    using get_field_total [OF assms(2)] by blast
  have js: "js_truthy (JStr f)" using assms(3) by simp
  have str: "js_to_string (JStr f) = Inr f" by simp
  have resume: "handleRedact_resume (Resolved r) s' =
      (s'\<lparr>redactedPdf := Some (static_base @ f), usedOcr := v, isLoading := False\<rparr>, [])" for s'
    by (simp add: handleRedact_resume_def try_body_success [OF assms(1) assms(2) js str v])
  show ?thesis
    by (simp add: resume handleRedact_selected static_base_def)
qed

theorem C2_download_url_witness:
  "redactedPdf (fst (handleRedact
      (Resolved \<lparr>status = 200,
                 data = JObj [(''filename'', JStr ''report_redacted.pdf''),
                              (''used_ocr'', JBool True)]\<rparr>)
      (initial_state\<lparr>pdf := SelFile (File ''report.pdf'' [])\<rparr>))) =
   Some ''http://127.0.0.1:8000/output/report_redacted.pdf''"
proof -
  let ?r = "\<lparr>status = 200,
             data = JObj [(''filename'', JStr ''report_redacted.pdf''),
                          (''used_ocr'', JBool True)]\<rparr>"
  have a: "status ?r = 200" by simp
  have b: "get_field (data ?r) ''filename'' = Inr (JStr ''report_redacted.pdf'')" by simp
  have c: "''report_redacted.pdf'' \<noteq> []" by simp
  from C2_download_url [OF a b c, of "initial_state\<lparr>pdf := SelFile (File ''report.pdf'' [])\<rparr>"]
  show ?thesis by simp
qed

text \<open>
  C3. A call that finds a file selected sets the in-flight flag and sends the request
  in its synchronous part; however the request settles (a response of any status
  and body, or a rejection), the state the continuation leaves has the flag false,
  in whatever state it resumes. Over every sequence of uploads, clicks and
  settlements from the initial state, the flag is true exactly while one request is
  outstanding, and at most one ever is.
\<close>

theorem C3_in_flight_flag:
  assumes "selection_truthy (pdf s)"
  shows "handleRedact_dispatch s =
           Suspended (s\<lparr>isLoading := True\<rparr>) [HttpPost (redact_request (pdf s))]
       \<and> \<not> isLoading (fst (handleRedact_resume oc s'))
       \<and> \<not> isLoading (fst (handleRedact oc s))
       \<and> in_flight (run evs) \<le> 1
       \<and> (isLoading (ui (run evs)) \<longleftrightarrow> in_flight (run evs) = 1)"
proof -
  have "flag_tracks_request (run evs)" by (rule run_flag_tracks_request)
  then have "in_flight (run evs) \<le> 1 \<and> (isLoading (ui (run evs)) \<longleftrightarrow> in_flight (run evs) = 1)"
    by (simp add: flag_tracks_request_def)
  moreover have "\<not> isLoading (fst (handleRedact oc s))"
    using assms by (simp add: handleRedact_selected resume_clears_flag)
  ultimately show ?thesis
    using assms by (simp add: dispatch_selected resume_clears_flag)
qed

theorem C3_in_flight_flag_witness:
  "selection_truthy (pdf (initial_state\<lparr>pdf := SelFile (File ''report.pdf'' [])\<rparr>))
   \<and> handleRedact_dispatch (initial_state\<lparr>pdf := SelFile (File ''report.pdf'' [])\<rparr>) =
       Suspended (initial_state\<lparr>pdf := SelFile (File ''report.pdf'' []), isLoading := True\<rparr>)
         [HttpPost (redact_request (SelFile (File ''report.pdf'' [])))]
   \<and> \<not> isLoading (fst (handleRedact (Rejected AxiosError)
          (initial_state\<lparr>pdf := SelFile (File ''report.pdf'' [])\<rparr>)))
   \<and> isLoading (ui (run [Upload [File ''report.pdf'' []], ClickRedact]))
   \<and> in_flight (run [Upload [File ''report.pdf'' []], ClickRedact]) = 1
   \<and> \<not> isLoading (ui (run [Upload [File ''report.pdf'' []], ClickRedact,
                              Settle (Resolved \<lparr>status = 200, data = JNull\<rparr>)]))"
proof -
  let ?s = "initial_state\<lparr>pdf := SelFile (File ''report.pdf'' [])\<rparr>"
  have h: "selection_truthy (pdf ?s)" by simp
  have one: "in_flight (run [Upload [File ''report.pdf'' []], ClickRedact]) = 1"
    by (simp add: run_def initial_system_def initial_state_def handleUpload_def render_def
        handleRedact_dispatch_def)
  have none: "in_flight (run [Upload [File ''report.pdf'' []], ClickRedact,
                              Settle (Resolved \<lparr>status = 200, data = JNull\<rparr>)]) = 0"
    by (simp add: run_def initial_system_def initial_state_def handleUpload_def render_def
        handleRedact_dispatch_def handleRedact_resume_def try_body_def)
  from C3_in_flight_flag [OF h, of "Rejected AxiosError" ?s
      "[Upload [File ''report.pdf'' []], ClickRedact]"]
    C3_in_flight_flag [OF h, of "Rejected AxiosError" ?s
      "[Upload [File ''report.pdf'' []], ClickRedact,
        Settle (Resolved \<lparr>status = 200, data = JNull\<rparr>)]"]
    one none h
  show ?thesis by simp
qed

text \<open>
  C4, as stated, fails twice. A reply with a status outside 200 to 299 makes
  \<^verbatim>\<open>axios.post\<close> reject, and a reply with status 200 whose body is \<^verbatim>\<open>null\<close> makes the
  read of \<^verbatim>\<open>response.data.filename\<close> throw: either way the \<^verbatim>\<open>catch\<close> block runs and the
  notice shown is "Failed to process the PDF.", not the generic one.
\<close>

theorem C4_generic_notice_counterexample:
  "snd (handleRedact (axios_post (HttpReply \<lparr>status = 500, data = JObj []\<rparr>))
         (initial_state\<lparr>pdf := SelFile (File ''report.pdf'' [])\<rparr>)) =
     [HttpPost (redact_request (SelFile (File ''report.pdf'' []))),
      Alert ''Failed to process the PDF.'']
   \<and> Alert ''Something went wrong. Please try again.'' \<notin>
       set (snd (handleRedact (axios_post (HttpReply \<lparr>status = 500, data = JObj []\<rparr>))
                  (initial_state\<lparr>pdf := SelFile (File ''report.pdf'' [])\<rparr>)))
   \<and> get_field (data \<lparr>status = 200, data = JNull\<rparr>) ''filename'' = Inl TypeError
   \<and> snd (handleRedact (axios_post (HttpReply \<lparr>status = 200, data = JNull\<rparr>))
            (initial_state\<lparr>pdf := SelFile (File ''report.pdf'' [])\<rparr>)) =
       [HttpPost (redact_request (SelFile (File ''report.pdf'' []))),
        Alert ''Failed to process the PDF.'']
   \<and> Alert ''Something went wrong. Please try again.'' \<notin>
       set (snd (handleRedact (axios_post (HttpReply \<lparr>status = 200, data = JNull\<rparr>))
                  (initial_state\<lparr>pdf := SelFile (File ''report.pdf'' [])\<rparr>)))"
  by (simp add: axios_post_def validateStatus_def handleRedact_def handleRedact_dispatch_def
      handleRedact_resume_def try_body_def initial_state_def)

text \<open>
  C4, amended. For every reply the request resolves with (a status from 200 to
  299) that lacks a usable \<^verbatim>\<open>filename\<close>, namely a status other than 200, or status 200
  with a body that yields a \<^verbatim>\<open>filename\<close> which is missing (\<^verbatim>\<open>undefined\<close>), empty or
  otherwise falsy, the only notice is "Something went wrong. Please try again.", no
  download URL is set, and the download URL, the OCR flag and the selected file are
  left as they were; only the in-flight flag is cleared. This holds for the
  continuation in whatever state it resumes and for a whole call started with a
  file selected.
\<close>

theorem C4_unusable_filename:
  assumes "validateStatus (status r)"
    and "status r \<noteq> 200 \<or>
         (\<exists>v. get_field (data r) ''filename'' = Inr v \<and> \<not> js_truthy v)"
  shows "handleRedact_resume (axios_post (HttpReply r)) s =
           (s\<lparr>isLoading := False\<rparr>, [Alert ''Something went wrong. Please try again.''])
       \<and> (selection_truthy (pdf s) \<longrightarrow>
            handleRedact (axios_post (HttpReply r)) s =
              (s\<lparr>isLoading := False\<rparr>,
               [HttpPost (redact_request (pdf s)),
                Alert ''Something went wrong. Please try again.''])
            \<and> redactedPdf (fst (handleRedact (axios_post (HttpReply r)) s)) = redactedPdf s
            \<and> usedOcr (fst (handleRedact (axios_post (HttpReply r)) s)) = usedOcr s)"
proof -
  have settled: "axios_post (HttpReply r) = Resolved r"
    using assms(1) by (rule axios_post_resolves)
  have body: "try_body (Resolved r) s' =
      (s', [Alert ''Something went wrong. Please try again.''], None)" for s'
  proof (cases "status r = 200")
    case True
    with assms(2) obtain v where "get_field (data r) ''filename'' = Inr v" "\<not> js_truthy v"
      by blast
    with True show ?thesis by (rule try_body_falsy_filename)
  next
    case False
    then show ?thesis by (rule try_body_other_status)
  qed
  have resume: "handleRedact_resume (Resolved r) s' =
      (s'\<lparr>isLoading := False\<rparr>, [Alert ''Something went wrong. Please try again.''])" for s'
    by (simp add: handleRedact_resume_def body)
  show ?thesis
    by (simp add: settled resume handleRedact_selected)
qed

theorem C4_unusable_filename_witness:
  "handleRedact (axios_post (HttpReply \<lparr>status = 200, data = JObj []\<rparr>))
     (initial_state\<lparr>pdf := SelFile (File ''report.pdf'' [])\<rparr>) =
   (initial_state\<lparr>pdf := SelFile (File ''report.pdf'' [])\<rparr>,
    [HttpPost (redact_request (SelFile (File ''report.pdf'' []))),
     Alert ''Something went wrong. Please try again.''])
   \<and> handleRedact
     (axios_post (HttpReply \<lparr>status = 200, data = JObj [(''filename'', JStr [])]\<rparr>))
     (initial_state\<lparr>pdf := SelFile (File ''report.pdf'' [])\<rparr>) =
   (initial_state\<lparr>pdf := SelFile (File ''report.pdf'' [])\<rparr>,
    [HttpPost (redact_request (SelFile (File ''report.pdf'' []))),
     Alert ''Something went wrong. Please try again.''])
   \<and> handleRedact (axios_post (HttpReply \<lparr>status = 204, data = JStr []\<rparr>))
     (initial_state\<lparr>pdf := SelFile (File ''report.pdf'' [])\<rparr>) =
   (initial_state\<lparr>pdf := SelFile (File ''report.pdf'' [])\<rparr>,
    [HttpPost (redact_request (SelFile (File ''report.pdf'' []))),
     Alert ''Something went wrong. Please try again.''])"
proof -
  let ?s = "initial_state\<lparr>pdf := SelFile (File ''report.pdf'' [])\<rparr>"
  let ?a = "\<lparr>status = 200, data = JObj []\<rparr>"
  let ?b = "\<lparr>status = 200, data = JObj [(''filename'', JStr [])]\<rparr>"
  let ?c = "\<lparr>status = 204, data = JStr []\<rparr>"
  have va: "validateStatus (status ?a)" and vb: "validateStatus (status ?b)"
    and vc: "validateStatus (status ?c)"
    by (simp_all add: validateStatus_def)
  have a: "status ?a \<noteq> 200 \<or>
      (\<exists>v. get_field (data ?a) ''filename'' = Inr v \<and> \<not> js_truthy v)"
    by simp
  have b: "status ?b \<noteq> 200 \<or>
      (\<exists>v. get_field (data ?b) ''filename'' = Inr v \<and> \<not> js_truthy v)"
    by simp
  have c: "status ?c \<noteq> 200 \<or>
      (\<exists>v. get_field (data ?c) ''filename'' = Inr v \<and> \<not> js_truthy v)"
    by simp
  have idle: "?s\<lparr>isLoading := False\<rparr> = ?s" by (simp add: initial_state_def)
  from C4_unusable_filename [OF va a, of ?s] C4_unusable_filename [OF vb b, of ?s]
    C4_unusable_filename [OF vc c, of ?s] idle
  show ?thesis by simp
qed

text \<open>
  C5. When the request is rejected (the awaited promise throws), the only notice is
  "Failed to process the PDF.", no download URL is set, and the selected file, the
  download URL and the OCR flag are left as they were; only the in-flight flag is
  cleared.
\<close>

theorem C5_transport_failure:
  "handleRedact_resume (Rejected e) s =
     (s\<lparr>isLoading := False\<rparr>, [Alert ''Failed to process the PDF.''])
   \<and> (selection_truthy (pdf s) \<longrightarrow>
        handleRedact (Rejected e) s =
          (s\<lparr>isLoading := False\<rparr>,
           [HttpPost (redact_request (pdf s)), Alert ''Failed to process the PDF.''])
        \<and> redactedPdf (fst (handleRedact (Rejected e) s)) = redactedPdf s
        \<and> usedOcr (fst (handleRedact (Rejected e) s)) = usedOcr s
        \<and> pdf (fst (handleRedact (Rejected e) s)) = pdf s)"
proof -
  have resume: "handleRedact_resume (Rejected e) s' =
      (s'\<lparr>isLoading := False\<rparr>, [Alert ''Failed to process the PDF.''])" for s'
    by (simp add: handleRedact_resume_def try_body_rejected)
  show ?thesis
    by (simp add: resume handleRedact_selected)
qed

theorem C5_transport_failure_witness:
  "handleRedact (Rejected AxiosError)
     (\<lparr>pdf = SelFile (File ''report.pdf'' []),
       redactedPdf = Some ''http://127.0.0.1:8000/output/old.pdf'',
       usedOcr = JBool True, isLoading = False\<rparr>) =
   (\<lparr>pdf = SelFile (File ''report.pdf'' []),
     redactedPdf = Some ''http://127.0.0.1:8000/output/old.pdf'',
     usedOcr = JBool True, isLoading = False\<rparr>,
    [HttpPost (redact_request (SelFile (File ''report.pdf'' []))),
     Alert ''Failed to process the PDF.''])"
  using C5_transport_failure [of AxiosError
      "\<lparr>pdf = SelFile (File ''report.pdf'' []),
        redactedPdf = Some ''http://127.0.0.1:8000/output/old.pdf'',
        usedOcr = JBool True, isLoading = False\<rparr>"]
  by simp

text \<open>
  C6. After every successful response (status 200 and a non-empty string as
  \<^verbatim>\<open>filename\<close>) the OCR advisory is rendered exactly when the body's \<^verbatim>\<open>used_ocr\<close> is true
  in the sense of the \<^verbatim>\<open>&&\<close> that guards it: it is shown for \<^verbatim>\<open>true\<close>, and not shown for
  \<^verbatim>\<open>false\<close> nor when the field is absent (\<^verbatim>\<open>undefined\<close>).
\<close>

theorem C6_ocr_advisory:
  assumes "status r = 200"
    and "get_field (data r) ''filename'' = Inr (JStr f)"
    and "f \<noteq> []"
    and "get_field (data r) ''used_ocr'' = Inr v"
    and "selection_truthy (pdf s)"
  shows "advisory_shown (render (fst (handleRedact (Resolved r) s))) = js_truthy v
       \<and> (v = JBool True \<longrightarrow> advisory_shown (render (fst (handleRedact (Resolved r) s))))
       \<and> (v = JBool False \<or> v = JUndefined \<longrightarrow>
            \<not> advisory_shown (render (fst (handleRedact (Resolved r) s))))"
proof -
  have js: "js_truthy (JStr f)" using assms(3) by simp
  have str: "js_to_string (JStr f) = Inr f" by simp
  have "fst (handleRedact (Resolved r) s) =
      s\<lparr>redactedPdf := Some (static_base @ f), usedOcr := v, isLoading := False\<rparr>"
    using assms(5)
    by (simp add: handleRedact_selected handleRedact_resume_def
        try_body_success [OF assms(1) assms(2) js str assms(4)])
  moreover have "static_base @ f \<noteq> []"
    by (simp add: static_base_def)
  ultimately have "advisory_shown (render (fst (handleRedact (Resolved r) s))) = js_truthy v"
    by (simp add: advisory_shown_stored)
  then show ?thesis by auto
qed

theorem C6_ocr_advisory_witness:
  "advisory_shown (render (fst (handleRedact
      (Resolved \<lparr>status = 200,
                 data = JObj [(''filename'', JStr ''report_redacted.pdf''),
                              (''used_ocr'', JBool True)]\<rparr>)
      (initial_state\<lparr>pdf := SelFile (File ''report.pdf'' [])\<rparr>))))
   \<and> \<not> advisory_shown (render (fst (handleRedact
      (Resolved \<lparr>status = 200,
                 data = JObj [(''filename'', JStr ''report_redacted.pdf'')]\<rparr>)
      (initial_state\<lparr>pdf := SelFile (File ''report.pdf'' [])\<rparr>))))
   \<and> \<not> advisory_shown (render (fst (handleRedact
      (Resolved \<lparr>status = 200,
                 data = JObj [(''filename'', JStr ''report_redacted.pdf''),
                              (''used_ocr'', JBool False)]\<rparr>)
      (initial_state\<lparr>pdf := SelFile (File ''report.pdf'' [])\<rparr>))))"
proof -
  let ?s = "initial_state\<lparr>pdf := SelFile (File ''report.pdf'' [])\<rparr>"
  let ?r = "\<lparr>status = 200,
             data = JObj [(''filename'', JStr ''report_redacted.pdf''),
                          (''used_ocr'', JBool True)]\<rparr>"
  let ?q = "\<lparr>status = 200, data = JObj [(''filename'', JStr ''report_redacted.pdf'')]\<rparr>"
  let ?p = "\<lparr>status = 200,
             data = JObj [(''filename'', JStr ''report_redacted.pdf''),
                          (''used_ocr'', JBool False)]\<rparr>"
  have sel: "selection_truthy (pdf ?s)" by simp
  have r1: "status ?r = 200" and q1: "status ?q = 200" and p1: "status ?p = 200"
    by simp_all
  have r2: "get_field (data ?r) ''filename'' = Inr (JStr ''report_redacted.pdf'')"
    and q2: "get_field (data ?q) ''filename'' = Inr (JStr ''report_redacted.pdf'')"
    and p2: "get_field (data ?p) ''filename'' = Inr (JStr ''report_redacted.pdf'')"
    by simp_all
  have t: "''report_redacted.pdf'' \<noteq> []" by simp
  have r3: "get_field (data ?r) ''used_ocr'' = Inr (JBool True)"
    and q3: "get_field (data ?q) ''used_ocr'' = Inr JUndefined"
    and p3: "get_field (data ?p) ''used_ocr'' = Inr (JBool False)"
    by simp_all
  from C6_ocr_advisory [OF r1 r2 t r3 sel] C6_ocr_advisory [OF q1 q2 t q3 sel]
    C6_ocr_advisory [OF p1 p2 t p3 sel]
  show ?thesis by simp
qed

text \<open>
  C7. \<^verbatim>\<open>handleUpload\<close> writes the selected-file field only: the download URL, the OCR
  flag and the in-flight flag of the new state are those of the old one, so a result
  obtained earlier stays.
\<close>

theorem C7_select_file_frame:
  "handleUpload files s = s\<lparr>pdf := first_file files\<rparr>
   \<and> pdf (handleUpload files s) = first_file files
   \<and> redactedPdf (handleUpload files s) = redactedPdf s
   \<and> usedOcr (handleUpload files s) = usedOcr s
   \<and> isLoading (handleUpload files s) = isLoading s"
  by (simp add: handleUpload_def)

text \<open>
  C8. The view is a function of the state alone, and in it the redact button is
  disabled with the label "Processing..." exactly when the in-flight flag is true,
  and enabled with the label "Redact PDF" exactly when it is false.
\<close>

theorem C8_redact_button:
  "((redact_disabled (render s) \<and> redact_label (render s) = ''Processing...'') = isLoading s)
   \<and> ((\<not> redact_disabled (render s) \<and> redact_label (render s) = ''Redact PDF'') =
        (\<not> isLoading s))"
  by (simp add: render_def)

text \<open>
  C9. When the picker's event carries an empty file list, \<^verbatim>\<open>handleUpload\<close> stores
  \<^verbatim>\<open>undefined\<close> as the selected file; a \<^verbatim>\<open>handleRedact\<close> call in that state shows
  "Please upload a PDF first.", sends no request and changes nothing.
\<close>

theorem C9_empty_file_list:
  "handleUpload [] s = s\<lparr>pdf := SelUndefined\<rparr>
   \<and> handleRedact_dispatch (handleUpload [] s) =
       Finished (handleUpload [] s) [Alert ''Please upload a PDF first.'']
   \<and> handleRedact oc (handleUpload [] s) =
       (handleUpload [] s, [Alert ''Please upload a PDF first.''])"
  by (simp add: handleUpload_def handleRedact_def handleRedact_dispatch_def)

text \<open>
  C10. In every state that holds a download URL (a non-empty string, as every URL
  the component stores is) while the in-flight flag is true, the view has both the
  disabled "Processing..." button and the result block with the download link to
  that URL, with the OCR advisory in it when the OCR flag is truthy.
\<close>

theorem C10_result_while_loading:
  assumes "redactedPdf s = Some u" and "u \<noteq> []" and "isLoading s"
  shows "redact_disabled (render s)
       \<and> redact_label (render s) = ''Processing...''
       \<and> result_slot (render s) = Some \<lparr>href = u, ocr_slot = render_ocr (usedOcr s)\<rparr>
       \<and> (js_truthy (usedOcr s) \<longrightarrow> advisory_shown (render s))"
  using assms by (simp add: render_def advisory_shown_def render_ocr_advisory)

theorem C10_result_while_loading_witness:
  "ui (run [Upload [File ''report.pdf'' []], ClickRedact,
            Settle (Resolved \<lparr>status = 200,
                               data = JObj [(''filename'', JStr ''report_redacted.pdf''),
                                            (''used_ocr'', JBool True)]\<rparr>),
            ClickRedact]) =
     \<lparr>pdf = SelFile (File ''report.pdf'' []),
      redactedPdf = Some ''http://127.0.0.1:8000/output/report_redacted.pdf'',
      usedOcr = JBool True, isLoading = True\<rparr>
   \<and> redact_disabled (render
       \<lparr>pdf = SelFile (File ''report.pdf'' []),
        redactedPdf = Some ''http://127.0.0.1:8000/output/report_redacted.pdf'',
        usedOcr = JBool True, isLoading = True\<rparr>)
   \<and> result_slot (render
       \<lparr>pdf = SelFile (File ''report.pdf'' []),
        redactedPdf = Some ''http://127.0.0.1:8000/output/report_redacted.pdf'',
        usedOcr = JBool True, isLoading = True\<rparr>) =
       Some \<lparr>href = ''http://127.0.0.1:8000/output/report_redacted.pdf'',
             ocr_slot = OcrAdvisory\<rparr>
   \<and> advisory_shown (render
       \<lparr>pdf = SelFile (File ''report.pdf'' []),
        redactedPdf = Some ''http://127.0.0.1:8000/output/report_redacted.pdf'',
        usedOcr = JBool True, isLoading = True\<rparr>)"
proof -
  let ?s = "\<lparr>pdf = SelFile (File ''report.pdf'' []),
             redactedPdf = Some ''http://127.0.0.1:8000/output/report_redacted.pdf'',
             usedOcr = JBool True, isLoading = True\<rparr>"
  have reach: "ui (run [Upload [File ''report.pdf'' []], ClickRedact,
            Settle (Resolved \<lparr>status = 200,
                               data = JObj [(''filename'', JStr ''report_redacted.pdf''),
                                            (''used_ocr'', JBool True)]\<rparr>),
            ClickRedact]) = ?s"
    by (simp add: run_def initial_system_def initial_state_def handleUpload_def render_def
        handleRedact_dispatch_def handleRedact_resume_def try_body_def static_base_def)
  have a: "redactedPdf ?s = Some ''http://127.0.0.1:8000/output/report_redacted.pdf''"
    by simp
  have b: "''http://127.0.0.1:8000/output/report_redacted.pdf'' \<noteq> []" by simp
  have c: "isLoading ?s" by simp
  from C10_result_while_loading [OF a b c] reach show ?thesis
    by (simp add: render_ocr_def)
qed

end
